theory Spec2Isabelle
  imports Complex_Main
begin

section \<open>The sensor monitor of \<open>monitor.py\<close>\<close>

text \<open>
  A shallow embedding of the classes \<open>HikCamObject\<close> and \<open>HikSensor\<close> of \<open>monitor.py\<close>:
  the constructor \<open>HikSensor.__init__\<close>, the event handler \<open>HikSensor.update_callback\<close> and
  the mail dispatch \<open>HikSensor.send_mail\<close>.

  Everything the handler does to the outside (printing, fetching a picture, the SMTP
  session, the HTTP GET) is recorded, in program order, in a list of effects. Everything
  the outside answers during one invocation (the sensor attributes held by the camera
  library, the picture, the outcome of each SMTP call and of \<open>requests.get\<close>) is read from
  a record \<open>world\<close>. An exception leaving a function is the value \<open>Some e\<close> in the last
  component of its result.
\<close>

subsection \<open>Time\<close>

text \<open>
  The timestamps are naive \<open>datetime\<close> objects (\<open>datetime.now()\<close> in the constructor and in
  the camera library). A naive \<open>datetime\<close> has a resolution of one microsecond and no time
  zone, so it is modelled as the number of microseconds since midnight of day one of the
  proleptic calendar; a \<open>timedelta\<close> is a number of microseconds. Subtraction of two
  datetimes is then integer subtraction, as in Python. \<open>datetime.min\<close> is \<open>0\<close>;
  subtracting a \<open>timedelta\<close> from a \<open>datetime\<close> raises \<open>OverflowError\<close> when the result
  would be earlier. The program does this once, in the constructor. The difference of
  two datetimes is always a \<open>timedelta\<close>.

  \<open>timedelta.total_seconds()\<close> divides the microseconds by \<open>10^6\<close>. Python returns the
  nearest float; the model returns the exact quotient. The only use of the result is the
  comparison with \<open>60\<close>, which has the same outcome for both: \<open>60\<close> is a float, and no
  multiple of \<open>10^-6\<close> other than \<open>60\<close> itself rounds to it.
\<close>

type_synonym datetime = int
type_synonym timedelta = int

definition datetime_min :: datetime where
  "datetime_min = 0"

definition timedelta_seconds :: "int \<Rightarrow> timedelta" where
  "timedelta_seconds s = s * 1000000"

definition total_seconds :: "timedelta \<Rightarrow> real" where
  "total_seconds d = real_of_int d / 1000000"

definition hour :: "datetime \<Rightarrow> int" where
  "hour t = (t div 3600000000) mod 24"

definition minute :: "datetime \<Rightarrow> int" where
  "minute t = (t div 60000000) mod 60"

definition second :: "datetime \<Rightarrow> int" where
  "second t = (t div 1000000) mod 60"

definition digit :: "int \<Rightarrow> char" where
  "digit n = char_of (48 + n)"

text \<open>A field of \<open>strftime\<close> that is zero-padded to two digits (\<open>%H\<close>, \<open>%M\<close>, \<open>%S\<close>).\<close>

definition two_digits :: "int \<Rightarrow> string" where
  "two_digits n = [digit (n div 10), digit (n mod 10)]"

text \<open>
  \<open>datetime.strftime\<close>, for the directives the program uses: \<open>%H\<close>, \<open>%M\<close> and \<open>%S\<close>;
  every other character of the format is copied.
\<close>

fun strftime :: "datetime \<Rightarrow> string \<Rightarrow> string" where
  "strftime t [] = []"
| "strftime t [c] = [c]"
| "strftime t (c # d # fmt) =
     (if c = CHR ''%'' \<and> d = CHR ''H'' then two_digits (hour t) @ strftime t fmt
      else if c = CHR ''%'' \<and> d = CHR ''M'' then two_digits (minute t) @ strftime t fmt
      else if c = CHR ''%'' \<and> d = CHR ''S'' then two_digits (second t) @ strftime t fmt
      else c # strftime t (d # fmt))"

subsection \<open>Formatting integers\<close>

fun str_nat :: "nat \<Rightarrow> string" where
  "str_nat n =
     (if n < 10 then [digit (int n)] else str_nat (n div 10) @ [digit (int (n mod 10))])"

declare str_nat.simps [simp del]

definition str_int :: "int \<Rightarrow> string" where
  "str_int i = (if i < 0 then CHR ''-'' # str_nat (nat (- i)) else str_nat (nat i))"

text \<open>\<open>sep.join(xs)\<close> on strings.\<close>

fun join :: "string \<Rightarrow> string list \<Rightarrow> string" where
  "join sep [] = []"
| "join sep [x] = x"
| "join sep (x # y # xs) = x @ sep @ join sep (y # xs)"

subsection \<open>Data\<close>

text \<open>
  \<open>HikCamObject\<close>: the fields the sensor reads. \<open>cam_name\<close> is the camera's name
  (\<open>self.cam.name\<close>, which \<open>HikCamObject.name\<close> returns too), \<open>cam_id\<close> is
  \<open>self.cam.cam_id\<close>. \<open>callback_url\<close> is a string (\<open>'localhost'\<close> when the caller gives
  none); the handler tests it for truth, that is, for not being empty.
\<close>

record HikCamObject =
  cam_name :: string
  cam_id :: string
  callback_url :: string

text \<open>The dictionary \<open>email_info\<close>; \<open>main\<close> builds it with exactly these five keys.\<close>

record email_info =
  send_from :: string
  send_to :: "string list"
  server :: string
  user :: string
  password :: string

text \<open>
  \<open>HikSensor\<close>. An Isabelle name cannot start with an underscore, so \<open>_cam\<close> is \<open>cam\<close>,
  \<open>_name\<close> is \<open>name\<close>, \<open>_id\<close> is \<open>ident\<close>, and so on. The attribute
  \<open>_sensor_last_trigger\<close> is tested for truth by the handler: \<open>None\<close> stands for a falsy
  value (Python's \<open>None\<close>), \<open>Some t\<close> for a \<open>datetime\<close>, which is always truthy.
\<close>

record HikSensor =
  cam :: HikCamObject
  name :: string
  ident :: string
  sensor :: string
  channel :: int
  email_info :: email_info
  sensor_last_trigger :: "datetime option"

datatype exn = Exn string

type_synonym bytes = "nat list"

text \<open>The MIME message: its headers and its parts, in the order they are attached.\<close>

datatype part =
    MIMEText string
  | MIMEApplication bytes string string

record message =
  From :: string
  To :: string
  Date :: string
  Subject :: string
  parts :: "part list"

text \<open>One constructor for each \<open>print\<close> statement of the two methods.\<close>

datatype line =
    Callback string
  | State_at string bool datetime
  | Updating_last_trigger_time
  | Sending_email
  | Would_not_send_an_email_now
  | Last_trigger_time_was_blank
  | Sending_get_request_to string
  | Status_code nat
  | Sendmail_result "(string \<times> string) list"

datatype effect =
    Print line
  | Get_picture
  | SMTP string nat
  | Starttls
  | Login string string
  | Sendmail string "string list" message
  | Close
  | Requests_get string

text \<open>
  What the outside answers during one invocation of the handler.
  \<open>sensor_state\<close> and \<open>sensor_last_update\<close> are elements \<open>0\<close> and \<open>3\<close> of the camera's
  attribute list for this sensor and channel; the camera library calls the handler from
  the thread that updates them, so they are the same at every read of one invocation.
  \<open>get_picture\<close> is the answer of \<open>self._cam.get_picture()\<close> (the content of the image or
  an exception); \<open>smtp_connect\<close>, \<open>smtp_starttls\<close>, \<open>smtp_login\<close> say whether that call of
  \<open>smtplib\<close> raises; \<open>smtp_sendmail\<close> is the exception or the dictionary of refused
  recipients; \<open>requests_get\<close> is the exception \<open>requests.get\<close> raises (no connection, an
  invalid URL) or the status code of the response; \<open>formatdate\<close> is the date header.
  \<open>as_string\<close> says, for a message, whether \<open>msg.as_string()\<close> raises: the \<open>email\<close>
  package refuses to write some messages, such as one with a line break in a header.
\<close>

record world =
  sensor_state :: bool
  sensor_last_update :: datetime
  get_picture :: "exn + bytes"
  smtp_connect :: "exn option"
  smtp_starttls :: "exn option"
  smtp_login :: "exn option"
  smtp_sendmail :: "exn + (string \<times> string) list"
  requests_get :: "exn + nat"
  formatdate :: string
  as_string :: "message \<Rightarrow> exn option"

subsection \<open>\<open>HikSensor.__init__\<close>\<close>

text \<open>
  \<open>now\<close> is the value of \<open>datetime.now()\<close> at construction. The name and the id are
  composed before the subtraction, which raises within the first minute of
  \<open>datetime.min\<close>; then no sensor is made. The constructor ends by registering the bound
  method \<open>update_callback\<close> of the new sensor with the camera library, under the
  sensor's id; from then on the library calls it for events of this sensor and channel.
\<close>

definition HikSensor_init ::
  "string \<Rightarrow> int \<Rightarrow> HikCamObject \<Rightarrow> email_info \<Rightarrow> datetime \<Rightarrow> exn + HikSensor" where
  "HikSensor_init sensor' channel' cam' email_info' now =
     (if now - timedelta_seconds 60 < datetime_min then Inl (Exn ''OverflowError'')
      else Inr
        \<lparr> cam = cam',
          name = cam_name cam' @ '' '' @ sensor' @ '' '' @ str_int channel',
          ident = cam_id cam' @ ''.'' @ sensor' @ ''.'' @ str_int channel',
          sensor = sensor',
          channel = channel',
          email_info = email_info',
          sensor_last_trigger = Some (now - timedelta_seconds 60) \<rparr>)"

subsection \<open>\<open>HikSensor.send_mail\<close>\<close>

text \<open>The message as it is composed before the SMTP session is opened.\<close>

definition compose :: "HikSensor \<Rightarrow> datetime \<Rightarrow> string \<Rightarrow> bytes \<Rightarrow> message" where
  "compose self trigger date content =
     (let triggerTime = strftime trigger ''%H:%M:%S'';
          fFtiggerTime = strftime trigger ''%H-%M-%S''
      in \<lparr> From = send_from (email_info self),
           To = join '', '' (send_to (email_info self)),
           Date = date,
           Subject = ''Motion detected at '' @ name self,
           parts =
             [MIMEText (''Motion detected at '' @ name self @ '' at '' @ triggerTime @ ''.''),
              MIMEApplication content (fFtiggerTime @ ''.jpg'')
                (''attachment; filename='' @ [CHR 0x22] @ fFtiggerTime @ ''.jpg'' @ [CHR 0x22])] \<rparr>)"

text \<open>
  The result is the effects performed and the exception raised, if any. With
  \<open>_sensor_last_trigger\<close> equal to \<open>None\<close> the call of \<open>strftime\<close> raises. The argument
  \<open>msg.as_string()\<close> of \<open>smtp.sendmail\<close> is evaluated after the login and before the
  call; when it raises, nothing is sent.
\<close>

definition send_mail :: "HikSensor \<Rightarrow> world \<Rightarrow> effect list \<times> exn option" where
  "send_mail self w =
     (case sensor_last_trigger self of
        None \<Rightarrow> ([], Some (Exn ''AttributeError''))
      | Some trigger \<Rightarrow>
     (case get_picture w of
        Inl e \<Rightarrow> ([Get_picture], Some e)
      | Inr content \<Rightarrow>
     (let info = email_info self;
          msg = compose self trigger (formatdate w) content;
          fx1 = [Get_picture, SMTP (server info) 587]
      in case smtp_connect w of
        Some e \<Rightarrow> (fx1, Some e)
      | None \<Rightarrow>
     (case smtp_starttls w of
        Some e \<Rightarrow> (fx1 @ [Starttls], Some e)
      | None \<Rightarrow>
     (case smtp_login w of
        Some e \<Rightarrow> (fx1 @ [Starttls, Login (user info) (password info)], Some e)
      | None \<Rightarrow>
     (case as_string w msg of
        Some e \<Rightarrow> (fx1 @ [Starttls, Login (user info) (password info)], Some e)
      | None \<Rightarrow>
     (let fx2 = fx1 @ [Starttls, Login (user info) (password info),
                       Sendmail (send_from info) (send_to info) msg]
      in case smtp_sendmail w of
        Inl e \<Rightarrow> (fx2, Some e)
      | Inr r \<Rightarrow> (fx2 @ [Print (Sendmail_result r), Close], None))))))))"

subsection \<open>\<open>HikSensor.update_callback\<close>\<close>

text \<open>
  Lines 145 to 147: the GET to the callback URL, at the end of the branch for an active
  sensor. \<open>fx\<close> is what has been done so far.
\<close>

definition get_request :: "HikSensor \<Rightarrow> effect list \<Rightarrow> world \<Rightarrow> HikSensor \<times> effect list \<times> exn option" where
  "get_request self fx w =
     (let url = callback_url (cam self);
          fx' = fx @ [Print (Sending_get_request_to url), Requests_get url]
      in case requests_get w of
        Inl e \<Rightarrow> (self, fx', Some e)
      | Inr status_code \<Rightarrow> (self, fx' @ [Print (Status_code status_code)], None))"

text \<open>
  The handler returns the sensor after the call, the effects in program order, and the
  exception that leaves the handler, if any.
\<close>

definition update_callback ::
  "HikSensor \<Rightarrow> string \<Rightarrow> world \<Rightarrow> HikSensor \<times> effect list \<times> exn option" where
  "update_callback self msg w =
     (let fx0 = [Print (Callback msg),
                 Print (State_at (cam_name (cam self)) (sensor_state w) (sensor_last_update w))]
      in if sensor_state w \<and> callback_url (cam self) \<noteq> [] then
           (let currTime = sensor_last_update w
            in case sensor_last_trigger self of
              Some last_trigger \<Rightarrow>
                (let difference = currTime - last_trigger
                 in if total_seconds difference > 60 then
                      (let self' = self\<lparr>sensor_last_trigger := Some currTime\<rparr>;
                           fx1 = fx0 @ [Print Updating_last_trigger_time, Print Sending_email]
                       in case send_mail self' w of
                         (fx, Some e) \<Rightarrow> (self', fx1 @ fx, Some e)
                       | (fx, None) \<Rightarrow> get_request self' (fx1 @ fx) w)
                    else get_request self (fx0 @ [Print Would_not_send_an_email_now]) w)
            | None \<Rightarrow>
                get_request (self\<lparr>sensor_last_trigger := Some currTime\<rparr>)
                  (fx0 @ [Print Last_trigger_time_was_blank]) w)
         else (self, fx0, None))"

text \<open>The three components of the handler's result.\<close>

definition after :: "HikSensor \<times> effect list \<times> exn option \<Rightarrow> HikSensor" where
  "after r = fst r"

definition effects :: "HikSensor \<times> effect list \<times> exn option \<Rightarrow> effect list" where
  "effects r = fst (snd r)"

definition raised :: "HikSensor \<times> effect list \<times> exn option \<Rightarrow> exn option" where
  "raised r = snd (snd r)"

subsection \<open>Observing a trace\<close>

text \<open>
  The handler has entered its firing branch, that is, it has passed the test on the
  elapsed time and calls \<open>send_mail\<close>: the line printed just before that call is in the
  trace.
\<close>

definition fired :: "effect list \<Rightarrow> bool" where
  "fired fx = (Print Sending_email \<in> set fx)"

text \<open>The messages handed to \<open>smtp.sendmail\<close>, and the URLs handed to \<open>requests.get\<close>.\<close>

fun mails :: "effect list \<Rightarrow> message list" where
  "mails [] = []"
| "mails (Sendmail f t m # fx) = m # mails fx"
| "mails (_ # fx) = mails fx"

fun gets :: "effect list \<Rightarrow> string list" where
  "gets [] = []"
| "gets (Requests_get url # fx) = url # gets fx"
| "gets (_ # fx) = gets fx"

subsection \<open>Sequences of events\<close>

text \<open>
  The camera library calls the handler once for each event. The sensor object lives on
  whether or not a call raised, so the next call starts from the sensor the previous one
  left.
\<close>

fun run :: "HikSensor \<Rightarrow> (string \<times> world) list \<Rightarrow> HikSensor" where
  "run self [] = self"
| "run self ((msg, w) # events) = run (after (update_callback self msg w)) events"

subsection \<open>The loop of \<open>main\<close> that makes the sensors\<close>












subsection \<open>Concrete inputs\<close>

definition driveway :: HikCamObject where
  "driveway = \<lparr> cam_name = ''driveway'', cam_id = ''cam1'',
                 callback_url = ''http://nas:5000/hook/driveway'' \<rparr>"

definition no_callback :: HikCamObject where
  "no_callback = \<lparr> cam_name = ''driveway'', cam_id = ''cam1'', callback_url = [] \<rparr>"

definition smtp_info :: email_info where
  "smtp_info = \<lparr> send_from = ''cam@example.org'', send_to = [''a@example.org'', ''b@example.org''],
                  server = ''smtp.example.org'', user = ''cam@example.org'', password = ''secret'' \<rparr>"

text \<open>An event at \<open>t\<close> microseconds on which nothing outside fails.\<close>

definition event :: "bool \<Rightarrow> datetime \<Rightarrow> world" where
  "event active t =
     \<lparr> sensor_state = active, sensor_last_update = t, get_picture = Inr [255, 216, 255],
       smtp_connect = None, smtp_starttls = None, smtp_login = None, smtp_sendmail = Inr [],
       requests_get = Inr 200, formatdate = ''Wed, 04 Nov 2026 12:00:00 +0100'',
       as_string = (\<lambda>m. None) \<rparr>"

text \<open>Noon of 4 November 2026, in microseconds.\<close>

definition noon :: datetime where
  "noon = 63929390400000000"

text \<open>The motion sensor of channel 1 of a camera, with the last trigger \<open>lt\<close>.\<close>

definition sensor_at :: "HikCamObject \<Rightarrow> datetime option \<Rightarrow> HikSensor" where
  "sensor_at c lt =
     \<lparr> cam = c, name = cam_name c @ '' Motion 1'', ident = cam_id c @ ''.Motion.1'',
       sensor = ''Motion'', channel = 1, email_info = smtp_info, sensor_last_trigger = lt \<rparr>"



section \<open>Properties\<close>

subsection \<open>The branches of the handler\<close>

text \<open>
  The test \<open>difference.total_seconds() > 60\<close> is a test on the microseconds.
\<close>

lemma total_seconds_gt_60: "(total_seconds d > 60) = (d > 60000000)"
  by (simp add: total_seconds_def field_simps) 

lemma mails_append: "mails (xs @ ys) = mails xs @ mails ys"
  by (induction xs rule: mails.induct) simp_all

lemma gets_append: "gets (xs @ ys) = gets xs @ gets ys"
  by (induction xs rule: gets.induct) simp_all

lemma send_mail_gets: "gets (fst (send_mail s w)) = []"
  by (auto simp add: send_mail_def Let_def split: option.splits sum.splits)

lemma send_mail_prints:
  "Print Sending_email \<notin> set (fst (send_mail s w))"
  "Print Last_trigger_time_was_blank \<notin> set (fst (send_mail s w))"
  by (auto simp add: send_mail_def Let_def split: option.splits sum.splits)

lemma send_mail_mails:
  "mails (fst (send_mail s w)) = [] \<or>
   (\<exists>t c. sensor_last_trigger s = Some t \<and> get_picture w = Inr c \<and>
      mails (fst (send_mail s w)) = [compose s t (formatdate w) c])"
  by (auto simp add: send_mail_def Let_def split: option.splits sum.splits)

lemma send_mail_ok_mails:
  "snd (send_mail s w) = None \<Longrightarrow> length (mails (fst (send_mail s w))) = 1"
  by (auto simp add: send_mail_def Let_def split: option.splits sum.splits)

lemma get_request_after: "fst (get_request s fx w) = s"
  by (simp add: get_request_def Let_def split: sum.splits)

lemma get_request_effects:
  "fst (snd (get_request s fx w)) =
     fx @ [Print (Sending_get_request_to (callback_url (cam s))), Requests_get (callback_url (cam s))] @
     (case requests_get w of Inl e \<Rightarrow> [] | Inr c \<Rightarrow> [Print (Status_code c)])"
  by (simp add: get_request_def Let_def split: sum.splits)

lemma get_request_raised:
  "snd (snd (get_request s fx w)) = (case requests_get w of Inl e \<Rightarrow> Some e | Inr c \<Rightarrow> None)"
  by (simp add: get_request_def Let_def split: sum.splits)

lemma uc_idle:
  "\<not> (sensor_state w \<and> callback_url (cam self) \<noteq> []) \<Longrightarrow>
   update_callback self msg w =
     (self, [Print (Callback msg),
             Print (State_at (cam_name (cam self)) (sensor_state w) (sensor_last_update w))], None)"
  by (auto simp: update_callback_def Let_def)

lemma uc_suppress:
  "sensor_state w \<Longrightarrow> callback_url (cam self) \<noteq> [] \<Longrightarrow> sensor_last_trigger self = Some lt \<Longrightarrow>
   \<not> 60000000 < sensor_last_update w - lt \<Longrightarrow>
   update_callback self msg w =
     get_request self
       [Print (Callback msg),
        Print (State_at (cam_name (cam self)) (sensor_state w) (sensor_last_update w)),
        Print Would_not_send_an_email_now] w"
  by (simp add: update_callback_def Let_def total_seconds_gt_60)

lemma uc_arm:
  "sensor_state w \<Longrightarrow> callback_url (cam self) \<noteq> [] \<Longrightarrow> sensor_last_trigger self = None \<Longrightarrow>
   update_callback self msg w =
     get_request (self\<lparr>sensor_last_trigger := Some (sensor_last_update w)\<rparr>)
       [Print (Callback msg),
        Print (State_at (cam_name (cam self)) (sensor_state w) (sensor_last_update w)),
        Print Last_trigger_time_was_blank] w"
  by (simp add: update_callback_def Let_def)

lemma uc_fire:
  "sensor_state w \<Longrightarrow> callback_url (cam self) \<noteq> [] \<Longrightarrow> sensor_last_trigger self = Some lt \<Longrightarrow>
   60000000 < sensor_last_update w - lt \<Longrightarrow>
   update_callback self msg w =
     (let self' = self\<lparr>sensor_last_trigger := Some (sensor_last_update w)\<rparr>;
          fx1 = [Print (Callback msg),
                 Print (State_at (cam_name (cam self)) (sensor_state w) (sensor_last_update w)),
                 Print Updating_last_trigger_time, Print Sending_email] @ fst (send_mail self' w)
      in case snd (send_mail self' w) of
           Some e \<Rightarrow> (self', fx1, Some e)
         | None \<Rightarrow> get_request self' fx1 w)"
  by (simp add: update_callback_def Let_def total_seconds_gt_60 split: prod.splits option.splits)

subsection \<open>What one invocation leaves, does and raises\<close>

text \<open>
  The sensor after the call, whether the firing branch was taken, the mails sent, the GET
  requests issued and the exception raised, each as a function of the sensor before the
  call and of the answers of the outside.
\<close>

lemma after_update_callback:
  "after (update_callback self msg w) =
     (if sensor_state w \<and> callback_url (cam self) \<noteq> [] \<and>
         (case sensor_last_trigger self of
            None \<Rightarrow> True | Some lt \<Rightarrow> 60000000 < sensor_last_update w - lt)
      then self\<lparr>sensor_last_trigger := Some (sensor_last_update w)\<rparr> else self)"
proof (cases "sensor_state w \<and> callback_url (cam self) \<noteq> []")
  case False
  then show ?thesis using uc_idle [of w self msg] by (auto simp: after_def)
next
  case active: True
  show ?thesis
  proof (cases "sensor_last_trigger self")
    case None
    with active show ?thesis by (simp add: uc_arm after_def get_request_after)
  next
    case (Some lt)
    show ?thesis
    proof (cases "60000000 < sensor_last_update w - lt")
      case True
      with active Some show ?thesis
        by (simp add: uc_fire after_def get_request_after Let_def split: option.splits)
    next
      case False
      with active Some show ?thesis by (simp add: uc_suppress after_def get_request_after)
    qed
  qed
qed

lemma fired_update_callback:
  "fired (effects (update_callback self msg w)) =
     (sensor_state w \<and> callback_url (cam self) \<noteq> [] \<and>
      (\<exists>lt. sensor_last_trigger self = Some lt \<and> 60000000 < sensor_last_update w - lt))"
proof (cases "sensor_state w \<and> callback_url (cam self) \<noteq> []")
  case False
  then show ?thesis using uc_idle [of w self msg] by (auto simp: effects_def fired_def)
next
  case active: True
  show ?thesis
  proof (cases "sensor_last_trigger self")
    case None
    with active show ?thesis by (simp add: uc_arm effects_def fired_def get_request_effects split: sum.splits)
  next
    case (Some lt)
    show ?thesis
    proof (cases "60000000 < sensor_last_update w - lt")
      case True
      with active Some show ?thesis
        by (simp add: uc_fire effects_def fired_def get_request_effects Let_def split: option.splits sum.splits)
    next
      case False
      with active Some show ?thesis by (simp add: uc_suppress effects_def fired_def get_request_effects split: sum.splits)
    qed
  qed
qed

lemma mails_update_callback:
  "mails (effects (update_callback self msg w)) =
     (if fired (effects (update_callback self msg w))
      then mails (fst (send_mail (self\<lparr>sensor_last_trigger := Some (sensor_last_update w)\<rparr>) w))
      else [])"
proof (cases "sensor_state w \<and> callback_url (cam self) \<noteq> []")
  case False
  then have "\<not> fired (effects (update_callback self msg w))"
    by (simp add: fired_update_callback)
  with False show ?thesis using uc_idle [of w self msg] by (auto simp: effects_def)
next
  case active: True
  show ?thesis
  proof (cases "sensor_last_trigger self")
    case None
    with active show ?thesis by (simp add: fired_update_callback) (simp add: uc_arm effects_def get_request_effects mails_append split: sum.splits)
  next
    case (Some lt)
    show ?thesis
    proof (cases "60000000 < sensor_last_update w - lt")
      case True
      with active Some show ?thesis
        by (simp add: fired_update_callback) (simp add: uc_fire effects_def get_request_effects mails_append Let_def split: option.splits sum.splits)
    next
      case False
      with active Some show ?thesis by (simp add: fired_update_callback) (simp add: uc_suppress effects_def get_request_effects mails_append split: sum.splits)
    qed
  qed
qed

lemma gets_update_callback:
  "gets (effects (update_callback self msg w)) =
     (if sensor_state w \<and> callback_url (cam self) \<noteq> [] \<and>
         (fired (effects (update_callback self msg w)) \<longrightarrow>
            snd (send_mail (self\<lparr>sensor_last_trigger := Some (sensor_last_update w)\<rparr>) w) = None)
      then [callback_url (cam self)] else [])"
proof (cases "sensor_state w \<and> callback_url (cam self) \<noteq> []")
  case False
  then show ?thesis using uc_idle [of w self msg] by (auto simp: effects_def)
next
  case active: True
  show ?thesis
  proof (cases "sensor_last_trigger self")
    case None
    with active show ?thesis by (simp add: fired_update_callback) (simp add: uc_arm effects_def get_request_effects gets_append split: sum.splits)
  next
    case (Some lt)
    show ?thesis
    proof (cases "60000000 < sensor_last_update w - lt")
      case True
      with active Some show ?thesis
        by (simp add: fired_update_callback) (simp add: uc_fire effects_def get_request_effects gets_append send_mail_gets Let_def split: option.splits sum.splits)
    next
      case False
      with active Some show ?thesis by (simp add: fired_update_callback) (simp add: uc_suppress effects_def get_request_effects gets_append split: sum.splits)
    qed
  qed
qed

lemma raised_update_callback:
  "raised (update_callback self msg w) =
     (if sensor_state w \<and> callback_url (cam self) \<noteq> [] then
        (if fired (effects (update_callback self msg w)) \<and>
            snd (send_mail (self\<lparr>sensor_last_trigger := Some (sensor_last_update w)\<rparr>) w) \<noteq> None
         then snd (send_mail (self\<lparr>sensor_last_trigger := Some (sensor_last_update w)\<rparr>) w)
         else (case requests_get w of Inl e \<Rightarrow> Some e | Inr c \<Rightarrow> None))
      else None)"
proof (cases "sensor_state w \<and> callback_url (cam self) \<noteq> []")
  case False
  then show ?thesis using uc_idle [of w self msg] by (auto simp: raised_def)
next
  case active: True
  show ?thesis
  proof (cases "sensor_last_trigger self")
    case None
    with active show ?thesis by (simp add: fired_update_callback) (simp add: uc_arm raised_def get_request_raised)
  next
    case (Some lt)
    show ?thesis
    proof (cases "60000000 < sensor_last_update w - lt")
      case True
      with active Some show ?thesis
        by (simp add: fired_update_callback) (auto simp add: uc_fire raised_def get_request_raised Let_def split: option.splits)
    next
      case False
      with active Some show ?thesis by (simp add: fired_update_callback) (simp add: uc_suppress raised_def get_request_raised)
    qed
  qed
qed

subsection \<open>Sequences of events\<close>

text \<open>
  A call of the handler changes no attribute of the sensor but
  \<open>_sensor_last_trigger\<close>, and never moves that one back.
\<close>

lemma step_frame:
  "after (update_callback self msg w) =
     self\<lparr>sensor_last_trigger := sensor_last_trigger (after (update_callback self msg w))\<rparr>"
  by (simp add: after_update_callback)

lemma step_mono:
  "sensor_last_trigger self = Some t \<Longrightarrow>
   \<exists>t'. sensor_last_trigger (after (update_callback self msg w)) = Some t' \<and> t \<le> t'"
  by (simp add: after_update_callback)

lemma run_frame:
  "run self events = self\<lparr>sensor_last_trigger := sensor_last_trigger (run self events)\<rparr>"
proof (induction events arbitrary: self)
  case Nil
  show ?case by simp
next
  case (Cons ev events)
  obtain msg w where ev: "ev = (msg, w)" by (cases ev)
  let ?s = "after (update_callback self msg w)"
  have "run ?s events = ?s\<lparr>sensor_last_trigger := sensor_last_trigger (run ?s events)\<rparr>"
    by (rule Cons.IH)
  also have "\<dots> = self\<lparr>sensor_last_trigger := sensor_last_trigger (run ?s events)\<rparr>"
    by (subst step_frame) simp
  finally show ?case by (simp add: ev)
qed

lemma run_mono:
  "sensor_last_trigger self = Some t \<Longrightarrow>
   \<exists>t'. sensor_last_trigger (run self events) = Some t' \<and> t \<le> t'"
proof (induction events arbitrary: self t)
  case Nil
  then show ?case by simp
next
  case (Cons ev events)
  obtain msg w where ev: "ev = (msg, w)" by (cases ev)
  from step_mono [OF Cons.prems, of msg w]
  obtain t1 where t1: "sensor_last_trigger (after (update_callback self msg w)) = Some t1" "t \<le> t1"
    by blast
  from Cons.IH [OF t1(1)]
  obtain t2 where "sensor_last_trigger (run (after (update_callback self msg w)) events) = Some t2" "t1 \<le> t2"
    by blast
  with t1(2) show ?case by (auto simp: ev)
qed

text \<open>The branch for a blank last trigger time is taken exactly when the value is falsy.\<close>

lemma init_last_trigger:
  "HikSensor_init s c cm info now = Inr self \<Longrightarrow>
   sensor_last_trigger self = Some (now - timedelta_seconds 60) \<and> cam self = cm \<and>
   sensor self = s \<and> channel self = c \<and>
   name self = cam_name cm @ '' '' @ s @ '' '' @ str_int c"
  by (auto simp: HikSensor_init_def split: if_splits)

lemma run_init_set:
  "HikSensor_init s c cm info now = Inr self \<Longrightarrow> sensor_last_trigger (run self events) \<noteq> None"
  using run_mono [of self "now - timedelta_seconds 60" events]
  by (auto dest: init_last_trigger)

lemma blank_branch:
  "Print Last_trigger_time_was_blank \<in> set (effects (update_callback self msg w)) =
     (sensor_state w \<and> callback_url (cam self) \<noteq> [] \<and> sensor_last_trigger self = None)"
proof (cases "sensor_state w \<and> callback_url (cam self) \<noteq> []")
  case False
  then show ?thesis using uc_idle [of w self msg] by (auto simp: effects_def)
next
  case active: True
  show ?thesis
  proof (cases "sensor_last_trigger self")
    case None
    with active show ?thesis by (simp add: uc_arm effects_def get_request_effects)
  next
    case (Some lt)
    show ?thesis
    proof (cases "60000000 < sensor_last_update w - lt")
      case True
      with active Some show ?thesis
        by (simp add: uc_fire effects_def get_request_effects send_mail_prints Let_def split: option.splits sum.splits)
    next
      case False
      with active Some show ?thesis by (simp add: uc_suppress effects_def get_request_effects split: sum.splits)
    qed
  qed
qed

text \<open>\<open>send_mail\<close> does not look at the answer of \<open>requests.get\<close>.\<close>

lemma send_mail_requests_get:
  "send_mail s (w\<lparr>requests_get := g\<rparr>) = send_mail s w"
  by (simp add: send_mail_def Let_def cong: option.case_cong sum.case_cong)

subsection \<open>The mail and the trace of a firing call\<close>

lemma total_seconds_le_60: "(total_seconds d \<le> 60) = (d \<le> 60000000)"
  using total_seconds_gt_60 [of d] by auto

lemma strftime_colons:
  "strftime t ''%H:%M:%S'' =
     two_digits (hour t) @ '':'' @ two_digits (minute t) @ '':'' @ two_digits (second t)"
  by simp

lemma strftime_dashes:
  "strftime t ''%H-%M-%S'' =
     two_digits (hour t) @ ''-'' @ two_digits (minute t) @ ''-'' @ two_digits (second t)"
  by simp

lemma send_mail_sent:
  "m \<in> set (mails (fst (send_mail s w))) \<Longrightarrow>
   \<exists>t content rest. sensor_last_trigger s = Some t \<and> get_picture w = Inr content \<and>
      m = compose s t (formatdate w) content \<and>
      fst (send_mail s w) =
        [Get_picture, SMTP (server (email_info s)) 587, Starttls,
         Login (user (email_info s)) (password (email_info s)),
         Sendmail (send_from (email_info s)) (send_to (email_info s)) m] @ rest"
  by (auto simp add: send_mail_def Let_def split: option.splits sum.splits)

lemma fired_effects:
  "fired (effects (update_callback self msg w)) \<Longrightarrow>
   \<exists>rest. effects (update_callback self msg w) =
      [Print (Callback msg),
       Print (State_at (cam_name (cam self)) True (sensor_last_update w)),
       Print Updating_last_trigger_time, Print Sending_email] @
      fst (send_mail (self\<lparr>sensor_last_trigger := Some (sensor_last_update w)\<rparr>) w) @ rest"
proof -
  assume "fired (effects (update_callback self msg w))"
  then obtain lt where a: "sensor_state w" "callback_url (cam self) \<noteq> []"
      "sensor_last_trigger self = Some lt" "60000000 < sensor_last_update w - lt"
    by (auto simp: fired_update_callback)
  show ?thesis
    using a by (simp add: uc_fire [OF a] effects_def get_request_effects Let_def split: option.splits)
qed

lemma run_name: "name (run self events) = name self"
  by (subst run_frame) simp

subsection \<open>The sensors made by \<open>main\<close>\<close>














subsection \<open>The concrete inputs\<close>

lemma init_sensor_at:
  "HikSensor_init ''Motion'' 1 c smtp_info now =
     (if now < 60000000 then Inl (Exn ''OverflowError'')
      else Inr (sensor_at c (Some (now - 60000000))))"
proof -
  have "str_int 1 = ''1''" by code_simp
  then show ?thesis
    by (simp add: HikSensor_init_def sensor_at_def timedelta_seconds_def datetime_min_def)
qed


section \<open>The claims\<close>

text \<open>
  C1, as amended. A mail is sent only by a call that takes the firing branch. For an active
  event on a sensor whose camera has a callback URL and whose last trigger time
  \<open>lt\<close> is set, the firing branch is taken if and only if
  \<open>last_observed - lt\<close> is more than 60 seconds, so not at exactly 60 seconds. When it is
  taken, the last trigger time is set to \<open>last_observed\<close> first and \<open>send_mail\<close> runs on
  the sensor so updated; when it is not, the sensor is unchanged, no mail is sent, and
  the GET alone is issued. On a camera without a callback URL the handler prints its two
  leading lines and does nothing else, whatever the elapsed time.
\<close>

theorem fires_iff_elapsed_exceeds_60_seconds:
  "(mails (effects (update_callback self msg w)) \<noteq> [] \<longrightarrow>
      fired (effects (update_callback self msg w))) \<and>
   (sensor_state w \<and> callback_url (cam self) \<noteq> [] \<and> sensor_last_trigger self = Some lt \<longrightarrow>
      (fired (effects (update_callback self msg w)) \<longleftrightarrow>
         60 < total_seconds (sensor_last_update w - lt)) \<and>
      (total_seconds (sensor_last_update w - lt) = 60 \<longrightarrow>
         \<not> fired (effects (update_callback self msg w))) \<and>
      (fired (effects (update_callback self msg w)) \<longrightarrow>
         sensor_last_trigger (after (update_callback self msg w)) = Some (sensor_last_update w) \<and>
         mails (effects (update_callback self msg w)) =
           mails (fst (send_mail (self\<lparr>sensor_last_trigger := Some (sensor_last_update w)\<rparr>) w))) \<and>
      (\<not> fired (effects (update_callback self msg w)) \<longrightarrow>
         after (update_callback self msg w) = self \<and>
         mails (effects (update_callback self msg w)) = [] \<and>
         gets (effects (update_callback self msg w)) = [callback_url (cam self)])) \<and>
   (callback_url (cam self) = [] \<longrightarrow>
      after (update_callback self msg w) = self \<and>
      effects (update_callback self msg w) =
        [Print (Callback msg),
         Print (State_at (cam_name (cam self)) (sensor_state w) (sensor_last_update w))] \<and>
      \<not> fired (effects (update_callback self msg w)) \<and>
      mails (effects (update_callback self msg w)) = [] \<and>
      gets (effects (update_callback self msg w)) = [] \<and>
      raised (update_callback self msg w) = None)"
proof -
  have only: "mails (effects (update_callback self msg w)) \<noteq> [] \<longrightarrow>
      fired (effects (update_callback self msg w))"
    by (simp add: mails_update_callback)
  have set: "(fired (effects (update_callback self msg w)) \<longleftrightarrow>
         60 < total_seconds (sensor_last_update w - lt)) \<and>
      (total_seconds (sensor_last_update w - lt) = 60 \<longrightarrow>
         \<not> fired (effects (update_callback self msg w))) \<and>
      (fired (effects (update_callback self msg w)) \<longrightarrow>
         sensor_last_trigger (after (update_callback self msg w)) = Some (sensor_last_update w) \<and>
         mails (effects (update_callback self msg w)) =
           mails (fst (send_mail (self\<lparr>sensor_last_trigger := Some (sensor_last_update w)\<rparr>) w))) \<and>
      (\<not> fired (effects (update_callback self msg w)) \<longrightarrow>
         after (update_callback self msg w) = self \<and>
         mails (effects (update_callback self msg w)) = [] \<and>
         gets (effects (update_callback self msg w)) = [callback_url (cam self)])"
    if a: "sensor_state w" "callback_url (cam self) \<noteq> []" "sensor_last_trigger self = Some lt"
  proof -
    have f: "fired (effects (update_callback self msg w)) \<longleftrightarrow>
         60 < total_seconds (sensor_last_update w - lt)"
      using a by (simp add: fired_update_callback total_seconds_gt_60)
    have after: "after (update_callback self msg w) =
       (if fired (effects (update_callback self msg w))
        then self\<lparr>sensor_last_trigger := Some (sensor_last_update w)\<rparr> else self)"
      using a by (simp add: after_update_callback fired_update_callback)
    have g: "\<not> fired (effects (update_callback self msg w)) \<longrightarrow>
         gets (effects (update_callback self msg w)) = [callback_url (cam self)]"
      using a by (simp add: gets_update_callback)
    show ?thesis
      using only f after g by (simp add: mails_update_callback)
  qed
  have none: "after (update_callback self msg w) = self \<and>
      effects (update_callback self msg w) =
        [Print (Callback msg),
         Print (State_at (cam_name (cam self)) (sensor_state w) (sensor_last_update w))] \<and>
      \<not> fired (effects (update_callback self msg w)) \<and>
      mails (effects (update_callback self msg w)) = [] \<and>
      gets (effects (update_callback self msg w)) = [] \<and>
      raised (update_callback self msg w) = None"
    if u: "callback_url (cam self) = []"
  proof -
    from u have idle: "\<not> (sensor_state w \<and> callback_url (cam self) \<noteq> [])"
      by simp
    show ?thesis
      by (simp add: uc_idle [OF idle] after_def effects_def raised_def fired_def)
  qed
  from only set none show ?thesis by blast
qed

theorem fires_iff_elapsed_exceeds_60_seconds_witness:
  "sensor_state (event True (noon + 60000001)) \<and> sensor_state (event True (noon + 60000000)) \<and>
   callback_url (cam (sensor_at driveway (Some noon))) \<noteq> [] \<and>
   callback_url (cam (sensor_at no_callback (Some noon))) = [] \<and>
   sensor_last_trigger (sensor_at driveway (Some noon)) = Some noon \<and>
   60 < total_seconds (sensor_last_update (event True (noon + 60000001)) - noon) \<and>
   total_seconds (sensor_last_update (event True (noon + 60000000)) - noon) = 60 \<and>
   fired (effects (update_callback (sensor_at driveway (Some noon)) ''m'' (event True (noon + 60000001)))) \<and>
   mails (effects (update_callback (sensor_at driveway (Some noon)) ''m'' (event True (noon + 60000001))))
     \<noteq> [] \<and>
   sensor_last_trigger
     (after (update_callback (sensor_at driveway (Some noon)) ''m'' (event True (noon + 60000001))))
     = Some (noon + 60000001) \<and>
   \<not> fired (effects (update_callback (sensor_at driveway (Some noon)) ''m'' (event True (noon + 60000000)))) \<and>
   after (update_callback (sensor_at driveway (Some noon)) ''m'' (event True (noon + 60000000)))
     = sensor_at driveway (Some noon) \<and>
   gets (effects (update_callback (sensor_at driveway (Some noon)) ''m'' (event True (noon + 60000000))))
     = [callback_url (cam (sensor_at driveway (Some noon)))] \<and>
   gets (effects (update_callback (sensor_at no_callback (Some noon)) ''m'' (event True (noon + 60000001))))
     = []"
proof -
  let ?s = "sensor_at driveway (Some noon)"
  have s: "callback_url (cam ?s) \<noteq> []" "sensor_last_trigger ?s = Some noon"
    "callback_url (cam (sensor_at no_callback (Some noon))) = []"
    by (simp_all add: sensor_at_def driveway_def no_callback_def)
  have e1: "sensor_state (event True (noon + 60000001))"
    "sensor_last_update (event True (noon + 60000001)) = noon + 60000001"
    by (simp_all add: event_def)
  have e0: "sensor_state (event True (noon + 60000000))"
    "sensor_last_update (event True (noon + 60000000)) = noon + 60000000"
    by (simp_all add: event_def)
  have t1: "60 < total_seconds (noon + 60000001 - noon)"
    and t0: "total_seconds (noon + 60000000 - noon) = 60"
    by (simp_all add: total_seconds_def)
  have sent: "mails (fst (send_mail (?s\<lparr>sensor_last_trigger := Some (noon + 60000001)\<rparr>)
      (event True (noon + 60000001)))) \<noteq> []"
    by (simp add: send_mail_def event_def Let_def)
  from fires_iff_elapsed_exceeds_60_seconds [of ?s "''m''" "event True (noon + 60000001)" noon]
    s e1 t1 sent
  have fire: "fired (effects (update_callback ?s ''m'' (event True (noon + 60000001))))"
     "mails (effects (update_callback ?s ''m'' (event True (noon + 60000001)))) \<noteq> []"
     "sensor_last_trigger (after (update_callback ?s ''m'' (event True (noon + 60000001))))
     = Some (noon + 60000001)"
    by simp_all
  from fires_iff_elapsed_exceeds_60_seconds [of ?s "''m''" "event True (noon + 60000000)" noon]
    s e0 t0
  have quiet: "\<not> fired (effects (update_callback ?s ''m'' (event True (noon + 60000000))))"
    "after (update_callback ?s ''m'' (event True (noon + 60000000))) = ?s"
    "gets (effects (update_callback ?s ''m'' (event True (noon + 60000000)))) = [callback_url (cam ?s)]"
    by simp_all
  from fires_iff_elapsed_exceeds_60_seconds
    [of "sensor_at no_callback (Some noon)" "''m''" "event True (noon + 60000001)" noon] s
  have none: "gets (effects (update_callback (sensor_at no_callback (Some noon)) ''m''
      (event True (noon + 60000001)))) = []"
    by simp
  from s e1 e0 t1 t0 fire quiet none show ?thesis by simp
qed

text \<open>
  The claim as it stands fails in two ways. On a camera without a callback URL an active
  event 120 seconds after the last trigger does not fire. And the firing branch is not
  the only one that produces a part of a notification: on a camera with a callback URL
  an active event 45 seconds after the last trigger does not fire and issues the GET.
\<close>

theorem fires_iff_elapsed_counterexample:
  "sensor_state (event True (noon + 120000000)) \<and>
   sensor_last_trigger (sensor_at no_callback (Some noon)) = Some noon \<and>
   60 < total_seconds (sensor_last_update (event True (noon + 120000000)) - noon) \<and>
   \<not> fired (effects (update_callback (sensor_at no_callback (Some noon)) ''m''
        (event True (noon + 120000000)))) \<and>
   sensor_state (event True (noon + 45000000)) \<and>
   sensor_last_trigger (sensor_at driveway (Some noon)) = Some noon \<and>
   \<not> fired (effects (update_callback (sensor_at driveway (Some noon)) ''m''
        (event True (noon + 45000000)))) \<and>
   gets (effects (update_callback (sensor_at driveway (Some noon)) ''m''
        (event True (noon + 45000000)))) = [''http://nas:5000/hook/driveway'']"
  by (simp add: gets_update_callback)
     (simp add: fired_update_callback event_def sensor_at_def no_callback_def driveway_def
        total_seconds_def)

text \<open>
  C2, as amended. The constructor sets the last trigger time, to the time of construction
  less 60 seconds. So the first active event after startup, on a camera with a callback
  URL, fires if and only if its \<open>last_observed\<close> is later than the time of construction,
  and then the last trigger time becomes \<open>last_observed\<close>; otherwise it is suppressed
  and the sensor is unchanged. An active event on a camera with a callback URL that
  finds no last trigger time sets it to \<open>last_observed\<close>, does not fire and sends no
  mail; it still issues the GET.
\<close>

theorem first_active_event_after_startup:
  "(HikSensor_init s c cm info now = Inr self0 \<longrightarrow>
      sensor_last_trigger self0 = Some (now - timedelta_seconds 60) \<and>
      (sensor_state w \<and> callback_url cm \<noteq> [] \<longrightarrow>
         (fired (effects (update_callback self0 msg w)) \<longleftrightarrow> now < sensor_last_update w) \<and>
         (now < sensor_last_update w \<longrightarrow>
            sensor_last_trigger (after (update_callback self0 msg w)) =
              Some (sensor_last_update w)) \<and>
         (\<not> now < sensor_last_update w \<longrightarrow>
            after (update_callback self0 msg w) = self0 \<and>
            mails (effects (update_callback self0 msg w)) = []))) \<and>
   (sensor_state w \<and> callback_url (cam self) \<noteq> [] \<and> sensor_last_trigger self = None \<longrightarrow>
      sensor_last_trigger (after (update_callback self msg w)) = Some (sensor_last_update w) \<and>
      \<not> fired (effects (update_callback self msg w)) \<and>
      mails (effects (update_callback self msg w)) = [] \<and>
      gets (effects (update_callback self msg w)) = [callback_url (cam self)])"
proof -
  have made: "sensor_last_trigger self0 = Some (now - timedelta_seconds 60) \<and>
      (sensor_state w \<and> callback_url cm \<noteq> [] \<longrightarrow>
         (fired (effects (update_callback self0 msg w)) \<longleftrightarrow> now < sensor_last_update w) \<and>
         (now < sensor_last_update w \<longrightarrow>
            sensor_last_trigger (after (update_callback self0 msg w)) =
              Some (sensor_last_update w)) \<and>
         (\<not> now < sensor_last_update w \<longrightarrow>
            after (update_callback self0 msg w) = self0 \<and>
            mails (effects (update_callback self0 msg w)) = []))"
    if i: "HikSensor_init s c cm info now = Inr self0"
  proof -
    from init_last_trigger [OF i]
    have init: "sensor_last_trigger self0 = Some (now - 60000000)" "cam self0 = cm"
      by (simp_all add: timedelta_seconds_def)
    have elapsed: "60000000 < sensor_last_update w - (now - 60000000) \<longleftrightarrow> now < sensor_last_update w"
      by arith
    show ?thesis
      by (simp add: mails_update_callback)
         (auto simp add: fired_update_callback after_update_callback init elapsed
            timedelta_seconds_def)
  qed
  have blank: "sensor_state w \<and> callback_url (cam self) \<noteq> [] \<and> sensor_last_trigger self = None \<longrightarrow>
      sensor_last_trigger (after (update_callback self msg w)) = Some (sensor_last_update w) \<and>
      \<not> fired (effects (update_callback self msg w)) \<and>
      mails (effects (update_callback self msg w)) = [] \<and>
      gets (effects (update_callback self msg w)) = [callback_url (cam self)]"
    by (simp add: mails_update_callback gets_update_callback)
       (auto simp add: fired_update_callback after_update_callback)
  from made blank show ?thesis by blast
qed

theorem first_active_event_after_startup_witness:
  "HikSensor_init ''Motion'' 1 driveway smtp_info noon =
     Inr (sensor_at driveway (Some (noon - 60000000))) \<and>
   sensor_state (event True (noon + 1000000)) \<and> sensor_state (event True (noon - 1000000)) \<and>
   callback_url driveway \<noteq> [] \<and>
   callback_url (cam (sensor_at driveway None)) \<noteq> [] \<and>
   sensor_last_trigger (sensor_at driveway None) = None \<and>
   noon < sensor_last_update (event True (noon + 1000000)) \<and>
   \<not> noon < sensor_last_update (event True (noon - 1000000)) \<and>
   fired (effects (update_callback (sensor_at driveway (Some (noon - 60000000))) ''m''
        (event True (noon + 1000000)))) \<and>
   sensor_last_trigger
     (after (update_callback (sensor_at driveway (Some (noon - 60000000))) ''m''
        (event True (noon + 1000000)))) = Some (noon + 1000000) \<and>
   after (update_callback (sensor_at driveway (Some (noon - 60000000))) ''m''
        (event True (noon - 1000000))) = sensor_at driveway (Some (noon - 60000000)) \<and>
   sensor_last_trigger
     (after (update_callback (sensor_at driveway None) ''m'' (event True (noon + 1000000)))) =
     Some (noon + 1000000) \<and>
   mails (effects (update_callback (sensor_at driveway None) ''m'' (event True (noon + 1000000)))) = []"
proof -
  let ?s = "sensor_at driveway (Some (noon - 60000000))"
  have i: "HikSensor_init ''Motion'' 1 driveway smtp_info noon = Inr ?s"
    by (simp add: init_sensor_at noon_def)
  have e: "sensor_state (event True (noon + 1000000))"
    "sensor_last_update (event True (noon + 1000000)) = noon + 1000000"
    "sensor_state (event True (noon - 1000000))"
    "sensor_last_update (event True (noon - 1000000)) = noon - 1000000"
    by (simp_all add: event_def)
  have u: "callback_url driveway \<noteq> []" "callback_url (cam (sensor_at driveway None)) \<noteq> []"
    "sensor_last_trigger (sensor_at driveway None) = None"
    by (simp_all add: driveway_def sensor_at_def)
  from first_active_event_after_startup
         [of "''Motion''" 1 driveway smtp_info noon ?s "event True (noon + 1000000)" "''m''"
             "sensor_at driveway None"] i e u
  have later: "fired (effects (update_callback ?s ''m'' (event True (noon + 1000000))))"
    "sensor_last_trigger (after (update_callback ?s ''m'' (event True (noon + 1000000)))) =
       Some (noon + 1000000)"
    "sensor_last_trigger
       (after (update_callback (sensor_at driveway None) ''m'' (event True (noon + 1000000)))) =
     Some (noon + 1000000)"
    "mails (effects (update_callback (sensor_at driveway None) ''m'' (event True (noon + 1000000)))) = []"
    by simp_all
  from first_active_event_after_startup
         [of "''Motion''" 1 driveway smtp_info noon ?s "event True (noon - 1000000)" "''m''"
             "sensor_at driveway None"] i e u
  have earlier: "after (update_callback ?s ''m'' (event True (noon - 1000000))) = ?s"
    by simp
  from i e u later earlier show ?thesis by simp
qed

text \<open>
  The claim as it stands fails for a sensor constructed at noon whose first active event
  comes one second later: the handler takes the firing branch and sends a mail.
\<close>

theorem first_active_event_fires_counterexample:
  "HikSensor_init ''Motion'' 1 driveway smtp_info noon =
     Inr (sensor_at driveway (Some (noon - 60000000))) \<and>
   sensor_state (event True (noon + 1000000)) \<and>
   fired (effects (update_callback (sensor_at driveway (Some (noon - 60000000))) ''m''
     (event True (noon + 1000000)))) \<and>
   mails (effects (update_callback (sensor_at driveway (Some (noon - 60000000))) ''m''
     (event True (noon + 1000000)))) \<noteq> []"
  by (simp add: init_sensor_at fired_update_callback mails_update_callback)
     (simp add: event_def sensor_at_def driveway_def send_mail_def Let_def noon_def)

text \<open>
  C3, as amended. No call sends more than one mail or issues more than one GET. A mail is
  sent only when the firing branch is taken. When it is taken and \<open>send_mail\<close> returns,
  exactly one mail is sent and exactly one GET is issued; when it is taken and
  \<open>send_mail\<close> raises, no GET is issued and the exception leaves the handler. An active
  event on a camera with a callback URL that does not fire sends no mail and issues
  exactly one GET. An inactive event, or one on a camera without a callback URL, does
  neither.
\<close>

theorem one_mail_and_one_get:
  "length (mails (effects (update_callback self msg w))) \<le> 1 \<and>
   length (gets (effects (update_callback self msg w))) \<le> 1 \<and>
   (mails (effects (update_callback self msg w)) \<noteq> [] \<longrightarrow>
      fired (effects (update_callback self msg w))) \<and>
   (fired (effects (update_callback self msg w)) \<and>
    snd (send_mail (self\<lparr>sensor_last_trigger := Some (sensor_last_update w)\<rparr>) w) = None \<longrightarrow>
      length (mails (effects (update_callback self msg w))) = 1 \<and>
      gets (effects (update_callback self msg w)) = [callback_url (cam self)]) \<and>
   (fired (effects (update_callback self msg w)) \<and>
    snd (send_mail (self\<lparr>sensor_last_trigger := Some (sensor_last_update w)\<rparr>) w) \<noteq> None \<longrightarrow>
      gets (effects (update_callback self msg w)) = [] \<and>
      raised (update_callback self msg w) =
        snd (send_mail (self\<lparr>sensor_last_trigger := Some (sensor_last_update w)\<rparr>) w)) \<and>
   (sensor_state w \<and> callback_url (cam self) \<noteq> [] \<and>
    \<not> fired (effects (update_callback self msg w)) \<longrightarrow>
      mails (effects (update_callback self msg w)) = [] \<and>
      gets (effects (update_callback self msg w)) = [callback_url (cam self)]) \<and>
   (\<not> (sensor_state w \<and> callback_url (cam self) \<noteq> []) \<longrightarrow>
      mails (effects (update_callback self msg w)) = [] \<and>
      gets (effects (update_callback self msg w)) = [])"
proof -
  let ?s = "self\<lparr>sensor_last_trigger := Some (sensor_last_update w)\<rparr>"
  have one: "length (mails (fst (send_mail ?s w))) \<le> 1"
    using send_mail_mails [of ?s w] by auto
  have ok: "snd (send_mail ?s w) = None \<longrightarrow> length (mails (fst (send_mail ?s w))) = 1"
    by (simp add: send_mail_ok_mails)
  have idle: "\<not> (sensor_state w \<and> callback_url (cam self) \<noteq> []) \<longrightarrow>
      \<not> fired (effects (update_callback self msg w))"
    by (simp add: fired_update_callback)
  have active: "fired (effects (update_callback self msg w)) \<longrightarrow>
      sensor_state w \<and> callback_url (cam self) \<noteq> []"
    by (simp add: fired_update_callback)
  have failed: "fired (effects (update_callback self msg w)) \<and> snd (send_mail ?s w) \<noteq> None \<longrightarrow>
      raised (update_callback self msg w) = snd (send_mail ?s w)"
    using active by (simp add: raised_update_callback)
  show ?thesis
    using one ok idle active failed by (simp add: mails_update_callback gets_update_callback)
qed

theorem one_mail_and_one_get_witness:
  "fired (effects (update_callback (sensor_at driveway (Some noon)) ''m'' (event True (noon + 75000000)))) \<and>
   snd (send_mail ((sensor_at driveway (Some noon))
          \<lparr>sensor_last_trigger := Some (sensor_last_update (event True (noon + 75000000)))\<rparr>)
          (event True (noon + 75000000))) = None \<and>
   length (mails (effects (update_callback (sensor_at driveway (Some noon)) ''m''
        (event True (noon + 75000000))))) = 1 \<and>
   gets (effects (update_callback (sensor_at driveway (Some noon)) ''m'' (event True (noon + 75000000)))) =
     [callback_url (cam (sensor_at driveway (Some noon)))] \<and>
   fired (effects (update_callback (sensor_at driveway (Some noon)) ''m''
        ((event True (noon + 75000000))\<lparr>as_string := (\<lambda>m. Some (Exn ''HeaderParseError''))\<rparr>))) \<and>
   snd (send_mail ((sensor_at driveway (Some noon))
          \<lparr>sensor_last_trigger := Some (sensor_last_update
             ((event True (noon + 75000000))\<lparr>as_string := (\<lambda>m. Some (Exn ''HeaderParseError''))\<rparr>))\<rparr>)
          ((event True (noon + 75000000))\<lparr>as_string := (\<lambda>m. Some (Exn ''HeaderParseError''))\<rparr>))
     \<noteq> None \<and>
   gets (effects (update_callback (sensor_at driveway (Some noon)) ''m''
        ((event True (noon + 75000000))\<lparr>as_string := (\<lambda>m. Some (Exn ''HeaderParseError''))\<rparr>))) = [] \<and>
   sensor_state (event True (noon + 30000000)) \<and>
   callback_url (cam (sensor_at driveway (Some noon))) \<noteq> [] \<and>
   \<not> fired (effects (update_callback (sensor_at driveway (Some noon)) ''m'' (event True (noon + 30000000)))) \<and>
   mails (effects (update_callback (sensor_at driveway (Some noon)) ''m'' (event True (noon + 30000000)))) = [] \<and>
   gets (effects (update_callback (sensor_at driveway (Some noon)) ''m'' (event True (noon + 30000000)))) =
     [callback_url (cam (sensor_at driveway (Some noon)))] \<and>
   \<not> sensor_state (event False (noon + 75000000)) \<and>
   gets (effects (update_callback (sensor_at driveway (Some noon)) ''m'' (event False (noon + 75000000)))) = []"
proof -
  let ?s = "sensor_at driveway (Some noon)"
  let ?bad = "(event True (noon + 75000000))\<lparr>as_string := (\<lambda>m. Some (Exn ''HeaderParseError''))\<rparr>"
  have f: "fired (effects (update_callback ?s ''m'' (event True (noon + 75000000))))"
    "fired (effects (update_callback ?s ''m'' ?bad))"
    by (simp_all add: fired_update_callback)
       (simp_all add: event_def sensor_at_def driveway_def)
  have ok: "snd (send_mail (?s\<lparr>sensor_last_trigger := Some (sensor_last_update (event True (noon + 75000000)))\<rparr>)
          (event True (noon + 75000000))) = None"
    by (simp add: send_mail_def event_def Let_def)
  have bad: "snd (send_mail (?s\<lparr>sensor_last_trigger := Some (sensor_last_update ?bad)\<rparr>) ?bad) \<noteq> None"
    by (simp add: send_mail_def event_def Let_def)
  have q: "sensor_state (event True (noon + 30000000))" "callback_url (cam ?s) \<noteq> []"
    "\<not> fired (effects (update_callback ?s ''m'' (event True (noon + 30000000))))"
    by (simp_all add: fired_update_callback)
       (simp_all add: event_def sensor_at_def driveway_def)
  have i: "\<not> sensor_state (event False (noon + 75000000))"
    by (simp add: event_def)
  from one_mail_and_one_get [of ?s "''m''" "event True (noon + 75000000)"] f ok
  have a: "length (mails (effects (update_callback ?s ''m'' (event True (noon + 75000000))))) = 1"
    "gets (effects (update_callback ?s ''m'' (event True (noon + 75000000)))) = [callback_url (cam ?s)]"
    by blast+
  from one_mail_and_one_get [of ?s "''m''" ?bad] f bad
  have d: "gets (effects (update_callback ?s ''m'' ?bad)) = []"
    by blast
  from one_mail_and_one_get [of ?s "''m''" "event True (noon + 30000000)"] q
  have b: "mails (effects (update_callback ?s ''m'' (event True (noon + 30000000)))) = []"
    "gets (effects (update_callback ?s ''m'' (event True (noon + 30000000)))) = [callback_url (cam ?s)]"
    by blast+
  from one_mail_and_one_get [of ?s "''m''" "event False (noon + 75000000)"] i
  have c: "gets (effects (update_callback ?s ''m'' (event False (noon + 75000000)))) = []"
    by blast
  from f ok bad q i a b c d show ?thesis by simp
qed

text \<open>
  The claim as it stands fails for an active event 30 seconds after the last trigger: it
  is suppressed, no mail is sent, and the GET is issued.
\<close>

theorem suppressed_event_issues_get_counterexample:
  "sensor_state (event True (noon + 30000000)) \<and>
   \<not> fired (effects (update_callback (sensor_at driveway (Some noon)) ''m'' (event True (noon + 30000000)))) \<and>
   mails (effects (update_callback (sensor_at driveway (Some noon)) ''m'' (event True (noon + 30000000)))) = [] \<and>
   gets (effects (update_callback (sensor_at driveway (Some noon)) ''m'' (event True (noon + 30000000)))) =
     [''http://nas:5000/hook/driveway'']"
  by (simp add: mails_update_callback gets_update_callback)
     (simp add: fired_update_callback event_def sensor_at_def driveway_def)

text \<open>
  C4, as amended. When the GET is issued and answers with a status code, whatever the
  code, the handler prints it and raises nothing. When \<open>requests.get\<close> itself raises, the
  exception leaves the handler. In both cases the answer of the GET changes neither the
  mails sent by the call nor the sensor it leaves.
\<close>

theorem callback_get_outcome:
  "(gets (effects (update_callback self msg w)) \<noteq> [] \<and> requests_get w = Inr code \<longrightarrow>
      raised (update_callback self msg w) = None \<and>
      Print (Status_code code) \<in> set (effects (update_callback self msg w))) \<and>
   (gets (effects (update_callback self msg w)) \<noteq> [] \<and> requests_get w = Inl e \<longrightarrow>
      raised (update_callback self msg w) = Some e) \<and>
   mails (effects (update_callback self msg (w\<lparr>requests_get := g\<rparr>))) =
     mails (effects (update_callback self msg w)) \<and>
   after (update_callback self msg (w\<lparr>requests_get := g\<rparr>)) = after (update_callback self msg w)"
proof -
  have issued: "raised (update_callback self msg w) =
      (case requests_get w of Inl e \<Rightarrow> Some e | Inr c \<Rightarrow> None)"
    if "gets (effects (update_callback self msg w)) \<noteq> []"
    using that by (auto simp add: gets_update_callback raised_update_callback split: if_splits)
  have printed: "Print (Status_code code) \<in> set (effects (update_callback self msg w))"
    if g: "gets (effects (update_callback self msg w)) \<noteq> []" and c: "requests_get w = Inr code"
  proof -
    from g have active: "sensor_state w" "callback_url (cam self) \<noteq> []"
      by (simp_all add: gets_update_callback split: if_splits)
    show ?thesis
    proof (cases "sensor_last_trigger self")
      case None
      with active c show ?thesis by (simp add: uc_arm effects_def get_request_effects)
    next
      case (Some lt)
      show ?thesis
      proof (cases "60000000 < sensor_last_update w - lt")
        case True
        with g active Some have "snd (send_mail (self\<lparr>sensor_last_trigger := Some (sensor_last_update w)\<rparr>) w) = None"
          by (simp add: gets_update_callback fired_update_callback split: if_splits)
        with True active Some c show ?thesis
          by (simp add: uc_fire effects_def get_request_effects Let_def)
      next
        case False
        with active Some c show ?thesis by (simp add: uc_suppress effects_def get_request_effects)
      qed
    qed
  qed
  have same: "mails (effects (update_callback self msg (w\<lparr>requests_get := g\<rparr>))) =
     mails (effects (update_callback self msg w))"
    "after (update_callback self msg (w\<lparr>requests_get := g\<rparr>)) = after (update_callback self msg w)"
    by (auto simp add: mails_update_callback fired_update_callback after_update_callback
          send_mail_requests_get split: option.splits)
  from issued printed same show ?thesis by simp
qed

theorem callback_get_outcome_witness:
  "gets (effects (update_callback (sensor_at driveway (Some noon)) ''m''
      ((event True (noon + 75000000))\<lparr>requests_get := Inr 500\<rparr>))) \<noteq> [] \<and>
   requests_get ((event True (noon + 75000000))\<lparr>requests_get := Inr 500\<rparr>) = Inr 500 \<and>
   raised (update_callback (sensor_at driveway (Some noon)) ''m''
      ((event True (noon + 75000000))\<lparr>requests_get := Inr 500\<rparr>)) = None \<and>
   Print (Status_code 500) \<in> set (effects (update_callback (sensor_at driveway (Some noon)) ''m''
      ((event True (noon + 75000000))\<lparr>requests_get := Inr 500\<rparr>))) \<and>
   gets (effects (update_callback (sensor_at driveway (Some noon)) ''m''
      ((event True (noon + 75000000))\<lparr>requests_get := Inl (Exn ''ConnectionError'')\<rparr>))) \<noteq> [] \<and>
   requests_get ((event True (noon + 75000000))\<lparr>requests_get := Inl (Exn ''ConnectionError'')\<rparr>) =
     Inl (Exn ''ConnectionError'') \<and>
   raised (update_callback (sensor_at driveway (Some noon)) ''m''
      ((event True (noon + 75000000))\<lparr>requests_get := Inl (Exn ''ConnectionError'')\<rparr>)) =
     Some (Exn ''ConnectionError'')"
proof -
  let ?s = "sensor_at driveway (Some noon)"
  have g: "gets (effects (update_callback ?s ''m''
      ((event True (noon + 75000000))\<lparr>requests_get := Inr 500\<rparr>))) \<noteq> []"
    "gets (effects (update_callback ?s ''m''
      ((event True (noon + 75000000))\<lparr>requests_get := Inl (Exn ''ConnectionError'')\<rparr>))) \<noteq> []"
    by (simp_all add: gets_update_callback fired_update_callback)
       (simp_all add: event_def sensor_at_def driveway_def send_mail_def Let_def)
  have c: "requests_get ((event True (noon + 75000000))\<lparr>requests_get := Inr 500\<rparr>) = Inr 500"
    "requests_get ((event True (noon + 75000000))\<lparr>requests_get := Inl (Exn ''ConnectionError'')\<rparr>) =
     Inl (Exn ''ConnectionError'')"
    by simp_all
  from callback_get_outcome [of ?s "''m''" "(event True (noon + 75000000))\<lparr>requests_get := Inr 500\<rparr>" 500] g c
  have a: "raised (update_callback ?s ''m'' ((event True (noon + 75000000))\<lparr>requests_get := Inr 500\<rparr>)) = None"
    "Print (Status_code 500) \<in> set (effects (update_callback ?s ''m''
      ((event True (noon + 75000000))\<lparr>requests_get := Inr 500\<rparr>)))"
    by blast+
  from callback_get_outcome [of ?s "''m''"
      "(event True (noon + 75000000))\<lparr>requests_get := Inl (Exn ''ConnectionError'')\<rparr>" _
      "Exn ''ConnectionError''"] g c
  have b: "raised (update_callback ?s ''m''
      ((event True (noon + 75000000))\<lparr>requests_get := Inl (Exn ''ConnectionError'')\<rparr>)) =
     Some (Exn ''ConnectionError'')"
    by blast
  from g c a b show ?thesis by simp
qed

text \<open>
  The claim as it stands fails when \<open>requests.get\<close> raises, as it does when the
  connection cannot be made: the exception is raised to the caller of the handler.
\<close>

theorem callback_get_failure_is_raised_counterexample:
  "gets (effects (update_callback (sensor_at driveway (Some noon)) ''m''
      ((event True (noon + 30000000))\<lparr>requests_get := Inl (Exn ''ConnectionError'')\<rparr>))) =
     [''http://nas:5000/hook/driveway''] \<and>
   raised (update_callback (sensor_at driveway (Some noon)) ''m''
      ((event True (noon + 30000000))\<lparr>requests_get := Inl (Exn ''ConnectionError'')\<rparr>)) =
     Some (Exn ''ConnectionError'')"
  by (simp add: gets_update_callback raised_update_callback)
     (simp add: fired_update_callback event_def sensor_at_def driveway_def)

text \<open>
  C5. An event whose sensor state is inactive does nothing observable: no mail, no GET,
  no exception, and the sensor (with its last trigger time) is as before, whatever it
  was. The handler only prints its two leading lines.
\<close>

theorem inactive_event_changes_nothing:
  assumes "\<not> sensor_state w"
  shows "after (update_callback self msg w) = self \<and>
         effects (update_callback self msg w) =
           [Print (Callback msg),
            Print (State_at (cam_name (cam self)) False (sensor_last_update w))] \<and>
         \<not> fired (effects (update_callback self msg w)) \<and>
         mails (effects (update_callback self msg w)) = [] \<and>
         gets (effects (update_callback self msg w)) = [] \<and>
         raised (update_callback self msg w) = None"
proof -
  from assms have idle: "\<not> (sensor_state w \<and> callback_url (cam self) \<noteq> [])"
    by simp
  have "update_callback self msg w =
          (self, [Print (Callback msg),
                  Print (State_at (cam_name (cam self)) False (sensor_last_update w))], None)"
    using uc_idle [OF idle, of msg] assms by simp
  then show ?thesis
    by (simp add: after_def effects_def raised_def fired_def)
qed

theorem inactive_event_changes_nothing_witness:
  "\<not> sensor_state (event False (noon + 120000000)) \<and>
   after (update_callback (sensor_at driveway (Some noon)) ''m'' (event False (noon + 120000000)))
     = sensor_at driveway (Some noon) \<and>
   mails (effects (update_callback (sensor_at driveway (Some noon)) ''m''
      (event False (noon + 120000000)))) = [] \<and>
   gets (effects (update_callback (sensor_at driveway (Some noon)) ''m''
      (event False (noon + 120000000)))) = []"
proof -
  have inactive: "\<not> sensor_state (event False (noon + 120000000))"
    by (simp add: event_def)
  from inactive_event_changes_nothing [OF inactive, of "sensor_at driveway (Some noon)" "''m''"] inactive
  show ?thesis by simp
qed



text \<open>
  C7, as amended. The same active event delivered twice in succession, to a sensor in any
  state: the second delivery does not fire and sends no mail, so the two deliveries send
  at most one mail. If the first delivery fired, the last trigger time is the event's
  timestamp and the elapsed time at the second delivery is zero; if it was suppressed,
  the sensor is unchanged and the second delivery is suppressed as the first was. The
  GET is not held back: on a camera with a callback URL the second delivery issues it,
  also when the first has issued it; without a callback URL neither delivery issues it.
\<close>

theorem same_event_twice_fires_at_most_once:
  "sensor_state w1 \<and> sensor_state w2 \<and> sensor_last_update w2 = sensor_last_update w1 \<longrightarrow>
     \<not> fired (effects (update_callback (after (update_callback self msg1 w1)) msg2 w2)) \<and>
     mails (effects (update_callback (after (update_callback self msg1 w1)) msg2 w2)) = [] \<and>
     length (mails (effects (update_callback self msg1 w1)) @
             mails (effects (update_callback (after (update_callback self msg1 w1)) msg2 w2))) \<le> 1 \<and>
     (fired (effects (update_callback self msg1 w1)) \<longrightarrow>
        sensor_last_trigger (after (update_callback self msg1 w1)) = Some (sensor_last_update w2)) \<and>
     (\<not> fired (effects (update_callback self msg1 w1)) \<and> sensor_last_trigger self \<noteq> None \<longrightarrow>
        after (update_callback self msg1 w1) = self) \<and>
     (callback_url (cam self) \<noteq> [] \<longrightarrow>
        gets (effects (update_callback (after (update_callback self msg1 w1)) msg2 w2)) =
          [callback_url (cam self)]) \<and>
     (callback_url (cam self) = [] \<longrightarrow>
        gets (effects (update_callback self msg1 w1)) = [] \<and>
        gets (effects (update_callback (after (update_callback self msg1 w1)) msg2 w2)) = [])"
proof -
  let ?s = "self\<lparr>sensor_last_trigger := Some (sensor_last_update w1)\<rparr>"
  let ?a = "after (update_callback self msg1 w1)"
  have one: "length (mails (fst (send_mail ?s w1))) \<le> 1"
    using send_mail_mails [of ?s w1] by auto
  have second: "\<not> fired (effects (update_callback ?a msg2 w2))"
    if "sensor_state w1" "sensor_last_update w2 = sensor_last_update w1"
    using that by (auto simp add: fired_update_callback after_update_callback split: option.splits)
  have first: "fired (effects (update_callback self msg1 w1)) \<longrightarrow>
        sensor_last_trigger ?a = Some (sensor_last_update w1)"
    by (auto simp add: fired_update_callback after_update_callback)
  have same: "\<not> fired (effects (update_callback self msg1 w1)) \<and> sensor_last_trigger self \<noteq> None \<longrightarrow>
        ?a = self"
    by (auto simp add: fired_update_callback after_update_callback)
  have cam: "cam ?a = cam self"
    by (simp add: after_update_callback)
  have again: "gets (effects (update_callback ?a msg2 w2)) = [callback_url (cam self)]"
    if "sensor_state w1" "sensor_state w2" "sensor_last_update w2 = sensor_last_update w1"
      "callback_url (cam self) \<noteq> []"
    using that second by (simp add: gets_update_callback [of ?a] cam)
  have none: "gets (effects (update_callback self msg1 w1)) = [] \<and>
        gets (effects (update_callback ?a msg2 w2)) = []"
    if "callback_url (cam self) = []"
    using that by (simp add: gets_update_callback [of ?a] gets_update_callback [of self] cam)
  show ?thesis
    using one second first same again none by (auto simp add: mails_update_callback)
qed

theorem same_event_twice_fires_at_most_once_witness:
  "sensor_state (event True (noon + 75000000)) \<and>
   sensor_state ((event True (noon + 75000000))\<lparr>requests_get := Inr 404\<rparr>) \<and>
   sensor_last_update ((event True (noon + 75000000))\<lparr>requests_get := Inr 404\<rparr>) =
     sensor_last_update (event True (noon + 75000000)) \<and>
   callback_url (cam (sensor_at driveway (Some noon))) \<noteq> [] \<and>
   fired (effects (update_callback (sensor_at driveway (Some noon)) ''a'' (event True (noon + 75000000)))) \<and>
   \<not> fired (effects (update_callback
        (after (update_callback (sensor_at driveway (Some noon)) ''a'' (event True (noon + 75000000))))
        ''b'' ((event True (noon + 75000000))\<lparr>requests_get := Inr 404\<rparr>))) \<and>
   sensor_last_trigger
     (after (update_callback (sensor_at driveway (Some noon)) ''a'' (event True (noon + 75000000)))) =
     Some (sensor_last_update ((event True (noon + 75000000))\<lparr>requests_get := Inr 404\<rparr>)) \<and>
   gets (effects (update_callback
        (after (update_callback (sensor_at driveway (Some noon)) ''a'' (event True (noon + 75000000))))
        ''b'' ((event True (noon + 75000000))\<lparr>requests_get := Inr 404\<rparr>))) =
     [callback_url (cam (sensor_at driveway (Some noon)))]"
proof -
  let ?s = "sensor_at driveway (Some noon)"
  have e: "sensor_state (event True (noon + 75000000))"
    "sensor_state ((event True (noon + 75000000))\<lparr>requests_get := Inr 404\<rparr>)"
    "sensor_last_update ((event True (noon + 75000000))\<lparr>requests_get := Inr 404\<rparr>) =
     sensor_last_update (event True (noon + 75000000))"
    by (simp_all add: event_def)
  have u: "callback_url (cam ?s) \<noteq> []"
    by (simp add: sensor_at_def driveway_def)
  have f: "fired (effects (update_callback ?s ''a'' (event True (noon + 75000000))))"
    by (simp add: fired_update_callback)
       (simp add: event_def sensor_at_def driveway_def)
  from same_event_twice_fires_at_most_once
         [of "event True (noon + 75000000)" "(event True (noon + 75000000))\<lparr>requests_get := Inr 404\<rparr>"
             ?s "''a''" "''b''"] e u f
  show ?thesis by blast
qed

text \<open>
  The claim as it stands, a notification being the mail and the callback, fails for an
  active event 75 seconds after the last trigger that is delivered twice: each of the
  two deliveries issues the GET.
\<close>

theorem same_event_twice_two_gets_counterexample:
  "sensor_state (event True (noon + 75000000)) \<and>
   gets (effects (update_callback (sensor_at driveway (Some noon)) ''a'' (event True (noon + 75000000)))) =
     [''http://nas:5000/hook/driveway''] \<and>
   gets (effects (update_callback
        (after (update_callback (sensor_at driveway (Some noon)) ''a'' (event True (noon + 75000000))))
        ''b'' (event True (noon + 75000000)))) =
     [''http://nas:5000/hook/driveway'']"
  by (simp add: gets_update_callback after_update_callback)
     (simp add: fired_update_callback event_def sensor_at_def driveway_def send_mail_def Let_def)

text \<open>
  C8. Every mail the handler sends has the subject \<open>Motion detected at\<close> followed by the
  sensor's name; a text part naming the sensor and the trigger time, which is the time
  of the event, as \<open>HH:MM:SS\<close>; and one attachment named \<open>HH-MM-SS.jpg\<close> after the same
  time. The attachment holds the picture that the call itself fetched, after it decided
  to fire and before it opened the SMTP session. The name of a sensor is the one its
  constructor composed from the camera's name, the sensor and the channel.
\<close>

theorem sent_mail_contents:
  "(m \<in> set (mails (effects (update_callback self msg w))) \<longrightarrow>
      Subject m = ''Motion detected at '' @ name self \<and>
      (\<exists>content rest.
         get_picture w = Inr content \<and>
         parts m =
           [MIMEText (''Motion detected at '' @ name self @ '' at '' @
              two_digits (hour (sensor_last_update w)) @ '':'' @
              two_digits (minute (sensor_last_update w)) @ '':'' @
              two_digits (second (sensor_last_update w)) @ ''.''),
            MIMEApplication content
              (two_digits (hour (sensor_last_update w)) @ ''-'' @
               two_digits (minute (sensor_last_update w)) @ ''-'' @
               two_digits (second (sensor_last_update w)) @ ''.jpg'')
              (''attachment; filename='' @ [CHR 0x22] @
               two_digits (hour (sensor_last_update w)) @ ''-'' @
               two_digits (minute (sensor_last_update w)) @ ''-'' @
               two_digits (second (sensor_last_update w)) @ ''.jpg'' @ [CHR 0x22])] \<and>
         effects (update_callback self msg w) =
           [Print (Callback msg),
            Print (State_at (cam_name (cam self)) True (sensor_last_update w)),
            Print Updating_last_trigger_time, Print Sending_email,
            Get_picture, SMTP (server (email_info self)) 587, Starttls,
            Login (user (email_info self)) (password (email_info self)),
            Sendmail (send_from (email_info self)) (send_to (email_info self)) m] @ rest)) \<and>
   (HikSensor_init s c cm info now = Inr self0 \<longrightarrow>
      name (run self0 events) = cam_name cm @ '' '' @ s @ '' '' @ str_int c)"
proof -
  let ?s = "self\<lparr>sensor_last_trigger := Some (sensor_last_update w)\<rparr>"
  let ?t = "sensor_last_update w"
  have composed: "HikSensor_init s c cm info now = Inr self0 \<longrightarrow>
      name (run self0 events) = cam_name cm @ '' '' @ s @ '' '' @ str_int c"
    by (auto simp add: run_name dest: init_last_trigger)
  have sent: ?thesis if m: "m \<in> set (mails (effects (update_callback self msg w)))"
  proof -
    from m have f: "fired (effects (update_callback self msg w))"
      and ms: "m \<in> set (mails (fst (send_mail ?s w)))"
      by (simp_all add: mails_update_callback split: if_splits)
    from send_mail_sent [OF ms] obtain content rest1 where
      pic: "get_picture w = Inr content" and
      mc: "m = compose ?s ?t (formatdate w) content" and
      fx: "fst (send_mail ?s w) =
        [Get_picture, SMTP (server (email_info ?s)) 587, Starttls,
         Login (user (email_info ?s)) (password (email_info ?s)),
         Sendmail (send_from (email_info ?s)) (send_to (email_info ?s)) m] @ rest1"
      by auto
    from fired_effects [OF f] obtain rest2 where
      all: "effects (update_callback self msg w) =
        [Print (Callback msg),
         Print (State_at (cam_name (cam self)) True (sensor_last_update w)),
         Print Updating_last_trigger_time, Print Sending_email] @ fst (send_mail ?s w) @ rest2"
      by blast
    have subject: "Subject m = ''Motion detected at '' @ name self"
      by (simp add: mc compose_def Let_def)
    have parts: "parts m =
           [MIMEText (''Motion detected at '' @ name self @ '' at '' @
              two_digits (hour ?t) @ '':'' @ two_digits (minute ?t) @ '':'' @
              two_digits (second ?t) @ ''.''),
            MIMEApplication content
              (two_digits (hour ?t) @ ''-'' @ two_digits (minute ?t) @ ''-'' @
               two_digits (second ?t) @ ''.jpg'')
              (''attachment; filename='' @ [CHR 0x22] @
               two_digits (hour ?t) @ ''-'' @ two_digits (minute ?t) @ ''-'' @
               two_digits (second ?t) @ ''.jpg'' @ [CHR 0x22])]"
      unfolding mc compose_def Let_def strftime_colons strftime_dashes by simp
    have trace: "effects (update_callback self msg w) =
           [Print (Callback msg),
            Print (State_at (cam_name (cam self)) True (sensor_last_update w)),
            Print Updating_last_trigger_time, Print Sending_email,
            Get_picture, SMTP (server (email_info self)) 587, Starttls,
            Login (user (email_info self)) (password (email_info self)),
            Sendmail (send_from (email_info self)) (send_to (email_info self)) m] @ (rest1 @ rest2)"
      using all fx by simp
    from subject pic parts trace composed show ?thesis by blast
  qed
  with composed show ?thesis by blast
qed

theorem sent_mail_contents_witness:
  "compose (sensor_at driveway (Some (noon + 2096000000))) (noon + 2096000000)
      (formatdate (event True (noon + 2096000000))) [255, 216, 255]
     \<in> set (mails (effects
         (update_callback (sensor_at driveway (Some noon)) ''m'' (event True (noon + 2096000000))))) \<and>
   Subject (compose (sensor_at driveway (Some (noon + 2096000000))) (noon + 2096000000)
      (formatdate (event True (noon + 2096000000))) [255, 216, 255]) =
     ''Motion detected at driveway Motion 1'' \<and>
   parts (compose (sensor_at driveway (Some (noon + 2096000000))) (noon + 2096000000)
      (formatdate (event True (noon + 2096000000))) [255, 216, 255]) =
     [MIMEText ''Motion detected at driveway Motion 1 at 12:34:56.'',
      MIMEApplication [255, 216, 255] ''12-34-56.jpg''
        (''attachment; filename='' @ [CHR 0x22] @ ''12-34-56.jpg'' @ [CHR 0x22])] \<and>
   HikSensor_init ''Motion'' 1 driveway smtp_info noon =
     Inr (sensor_at driveway (Some (noon - 60000000))) \<and>
   name (run (sensor_at driveway (Some (noon - 60000000))) [(''a'', event True (noon + 75000000))]) =
     cam_name driveway @ '' '' @ ''Motion'' @ '' '' @ str_int 1"
proof -
  let ?m = "compose (sensor_at driveway (Some (noon + 2096000000))) (noon + 2096000000)
      (formatdate (event True (noon + 2096000000))) [255, 216, 255]"
  have sent: "?m \<in> set (mails (effects
         (update_callback (sensor_at driveway (Some noon)) ''m'' (event True (noon + 2096000000)))))"
    by (simp add: mails_update_callback fired_update_callback)
       (simp add: event_def sensor_at_def driveway_def send_mail_def Let_def)
  have i: "HikSensor_init ''Motion'' 1 driveway smtp_info noon =
     Inr (sensor_at driveway (Some (noon - 60000000)))"
    by (simp add: init_sensor_at noon_def)
  have n: "name (sensor_at driveway (Some noon)) = ''driveway Motion 1''"
    by (simp add: sensor_at_def driveway_def)
  have t: "sensor_last_update (event True (noon + 2096000000)) = noon + 2096000000"
    "get_picture (event True (noon + 2096000000)) = Inr [255, 216, 255]"
    by (simp_all add: event_def)
  have d: "two_digits (hour (noon + 2096000000)) = ''12''"
    "two_digits (minute (noon + 2096000000)) = ''34''"
    "two_digits (second (noon + 2096000000)) = ''56''"
    by code_simp+
  from sent_mail_contents
    [of ?m "sensor_at driveway (Some noon)" "''m''" "event True (noon + 2096000000)"
        "''Motion''" 1 driveway smtp_info noon "sensor_at driveway (Some (noon - 60000000))"
        "[(''a'', event True (noon + 75000000))]"] sent i
  show ?thesis by (auto simp add: n t d)
qed

text \<open>
  C9. The branch for a blank last trigger time is unreachable. The constructor stores a
  \<open>datetime\<close> in every sensor it makes, so after any sequence of events the stored value
  is still truthy, and the next call of the handler does not print the line of that
  branch.
\<close>

theorem blank_branch_unreachable:
  "HikSensor_init s c cm info now = Inr self \<longrightarrow>
     sensor_last_trigger (run self events) \<noteq> None \<and>
     Print Last_trigger_time_was_blank \<notin>
       set (effects (update_callback (run self events) msg w))"
  using run_init_set [of s c cm info now self events] by (simp add: blank_branch)

theorem blank_branch_unreachable_witness:
  "HikSensor_init ''Motion'' 1 driveway smtp_info noon =
     Inr (sensor_at driveway (Some (noon - 60000000))) \<and>
   sensor_last_trigger
     (run (sensor_at driveway (Some (noon - 60000000)))
        [(''a'', event True (noon + 75000000)), (''b'', event False (noon + 80000000))]) \<noteq> None \<and>
   Print Last_trigger_time_was_blank \<notin>
     set (effects (update_callback
       (run (sensor_at driveway (Some (noon - 60000000)))
          [(''a'', event True (noon + 75000000)), (''b'', event False (noon + 80000000))])
       ''c'' (event True (noon + 200000000))))"
proof -
  have i: "HikSensor_init ''Motion'' 1 driveway smtp_info noon =
     Inr (sensor_at driveway (Some (noon - 60000000)))"
    by (simp add: init_sensor_at noon_def)
  from blank_branch_unreachable
    [of "''Motion''" 1 driveway smtp_info noon "sensor_at driveway (Some (noon - 60000000))"
        "[(''a'', event True (noon + 75000000)), (''b'', event False (noon + 80000000))]"
        "''c''" "event True (noon + 200000000)"] i
  show ?thesis by blast
qed

text \<open>
  C10. When the elapsed time exceeds 60 seconds and \<open>send_mail\<close> raises, the exception
  leaves the handler, the last trigger time is already the event's timestamp, and no
  GET is issued. A following event no more than 60 seconds later does not fire.
\<close>

theorem failed_mail_consumes_window:
  "sensor_state w \<and> callback_url (cam self) \<noteq> [] \<and> sensor_last_trigger self = Some lt \<and>
   60 < total_seconds (sensor_last_update w - lt) \<and>
   snd (send_mail (self\<lparr>sensor_last_trigger := Some (sensor_last_update w)\<rparr>) w) = Some e \<longrightarrow>
     raised (update_callback self msg w) = Some e \<and>
     sensor_last_trigger (after (update_callback self msg w)) = Some (sensor_last_update w) \<and>
     gets (effects (update_callback self msg w)) = [] \<and>
     (total_seconds (sensor_last_update w' - sensor_last_update w) \<le> 60 \<longrightarrow>
        \<not> fired (effects (update_callback (after (update_callback self msg w)) msg' w')) \<and>
        mails (effects (update_callback (after (update_callback self msg w)) msg' w')) = [])"
proof -
  have ?thesis if a: "sensor_state w" "callback_url (cam self) \<noteq> []"
      "sensor_last_trigger self = Some lt" "60000000 < sensor_last_update w - lt"
      "snd (send_mail (self\<lparr>sensor_last_trigger := Some (sensor_last_update w)\<rparr>) w) = Some e"
  proof -
    have f: "fired (effects (update_callback self msg w))"
      using a by (simp add: fired_update_callback)
    have after: "after (update_callback self msg w) =
        self\<lparr>sensor_last_trigger := Some (sensor_last_update w)\<rparr>"
      using a by (simp add: after_update_callback)
    have r: "raised (update_callback self msg w) = Some e"
      using a f by (simp add: raised_update_callback)
    have g: "gets (effects (update_callback self msg w)) = []"
      using a f by (simp add: gets_update_callback)
    have later: "\<not> fired (effects (update_callback (after (update_callback self msg w)) msg' w'))"
      if "sensor_last_update w' - sensor_last_update w \<le> 60000000"
      using that by (simp add: after fired_update_callback)
    from r g later after show ?thesis
      by (simp add: mails_update_callback total_seconds_le_60)
  qed
  then show ?thesis by (simp add: total_seconds_gt_60)
qed

theorem failed_mail_consumes_window_witness:
  "sensor_state ((event True (noon + 75000000))\<lparr>smtp_login := Some (Exn ''SMTPAuthenticationError'')\<rparr>) \<and>
   callback_url (cam (sensor_at driveway (Some noon))) \<noteq> [] \<and>
   sensor_last_trigger (sensor_at driveway (Some noon)) = Some noon \<and>
   60 < total_seconds (sensor_last_update
          ((event True (noon + 75000000))\<lparr>smtp_login := Some (Exn ''SMTPAuthenticationError'')\<rparr>) - noon) \<and>
   snd (send_mail ((sensor_at driveway (Some noon))\<lparr>sensor_last_trigger := Some (sensor_last_update
          ((event True (noon + 75000000))\<lparr>smtp_login := Some (Exn ''SMTPAuthenticationError'')\<rparr>))\<rparr>)
        ((event True (noon + 75000000))\<lparr>smtp_login := Some (Exn ''SMTPAuthenticationError'')\<rparr>)) =
     Some (Exn ''SMTPAuthenticationError'') \<and>
   total_seconds (sensor_last_update (event True (noon + 100000000)) - sensor_last_update
          ((event True (noon + 75000000))\<lparr>smtp_login := Some (Exn ''SMTPAuthenticationError'')\<rparr>)) \<le> 60 \<and>
   raised (update_callback (sensor_at driveway (Some noon)) ''a''
     ((event True (noon + 75000000))\<lparr>smtp_login := Some (Exn ''SMTPAuthenticationError'')\<rparr>)) =
     Some (Exn ''SMTPAuthenticationError'') \<and>
   sensor_last_trigger (after (update_callback (sensor_at driveway (Some noon)) ''a''
     ((event True (noon + 75000000))\<lparr>smtp_login := Some (Exn ''SMTPAuthenticationError'')\<rparr>))) =
     Some (noon + 75000000) \<and>
   gets (effects (update_callback (sensor_at driveway (Some noon)) ''a''
     ((event True (noon + 75000000))\<lparr>smtp_login := Some (Exn ''SMTPAuthenticationError'')\<rparr>))) = [] \<and>
   \<not> fired (effects (update_callback
       (after (update_callback (sensor_at driveway (Some noon)) ''a''
          ((event True (noon + 75000000))\<lparr>smtp_login := Some (Exn ''SMTPAuthenticationError'')\<rparr>)))
       ''b'' (event True (noon + 100000000))))"
proof -
  let ?w = "(event True (noon + 75000000))\<lparr>smtp_login := Some (Exn ''SMTPAuthenticationError'')\<rparr>"
  let ?s = "sensor_at driveway (Some noon)"
  have w: "sensor_state ?w" "sensor_last_update ?w = noon + 75000000"
    "sensor_last_update (event True (noon + 100000000)) = noon + 100000000"
    by (simp_all add: event_def)
  have s: "callback_url (cam ?s) \<noteq> []" "sensor_last_trigger ?s = Some noon"
    by (simp_all add: sensor_at_def driveway_def)
  have t: "60 < total_seconds (noon + 75000000 - noon)"
    "total_seconds (noon + 100000000 - (noon + 75000000)) \<le> 60"
    by (simp_all add: total_seconds_def)
  have m: "snd (send_mail (?s\<lparr>sensor_last_trigger := Some (noon + 75000000)\<rparr>) ?w) =
      Some (Exn ''SMTPAuthenticationError'')"
    by (simp add: send_mail_def event_def Let_def)
  from failed_mail_consumes_window
         [of ?w ?s noon "Exn ''SMTPAuthenticationError''" "''a''" "event True (noon + 100000000)" "''b''"]
       w s t m
  show ?thesis by simp
qed

end
